theory Spec2Isabelle
  imports Main "HOL-Library.Word" "HOL-Library.Sublist"
begin

section \<open>Go standard-library string functions used by the package\<close>

text \<open>
  Go strings are byte sequences; they are modelled as \<open>string\<close> (a list of characters).
  The functions below are the ones of packages \<^verbatim>\<open>strings\<close> and \<^verbatim>\<open>strconv\<close> that the
  code calls on strings and integers, written the way the Go library computes them.
\<close>

text \<open>\<^verbatim>\<open>strings.HasSuffix(s, suffix)\<close>:
  \<^verbatim>\<open>len(s) >= len(suffix) && s[len(s)-len(suffix):] == suffix\<close>.\<close>

definition HasSuffix :: "string \<Rightarrow> string \<Rightarrow> bool" where
  "HasSuffix s suf \<longleftrightarrow> length suf \<le> length s \<and> drop (length s - length suf) s = suf"

text \<open>\<^verbatim>\<open>strings.TrimSuffix(s, suffix)\<close>: \<^verbatim>\<open>s[:len(s)-len(suffix)]\<close> when \<^verbatim>\<open>s\<close> has the
  suffix, \<^verbatim>\<open>s\<close> otherwise.\<close>

definition TrimSuffix :: "string \<Rightarrow> string \<Rightarrow> string" where
  "TrimSuffix s suf = (if HasSuffix s suf then take (length s - length suf) s else s)"

text \<open>\<^verbatim>\<open>strings.Join(elems, sep)\<close>: the empty string for no element, otherwise the first
  element followed by \<^verbatim>\<open>sep + s\<close> for every later element \<^verbatim>\<open>s\<close>.\<close>

fun Join :: "string list \<Rightarrow> string \<Rightarrow> string" where
  "Join [] sep = []"
| "Join (e # es) sep = e @ concat (map (\<lambda>s. sep @ s) es)"

text \<open>\<^verbatim>\<open>strconv.Itoa(i)\<close>: the decimal digits of \<^verbatim>\<open>i\<close>, most significant first, after a
  minus sign when \<^verbatim>\<open>i\<close> is negative.\<close>

fun digits :: "nat \<Rightarrow> string" where
  "digits n = (if n < 10 then [''0123456789'' ! n]
               else digits (n div 10) @ [''0123456789'' ! (n mod 10)])"

declare digits.simps [simp del]

definition Itoa :: "int \<Rightarrow> string" where
  "Itoa i = (if i < 0 then CHR ''-'' # digits (nat (- i)) else digits (nat i))"


section \<open>Documents and style registration (text.go)\<close>

text \<open>
  \<^verbatim>\<open>Conf\<close> and \<^verbatim>\<open>Styling\<close> are the structs of the source. A \<^verbatim>\<open>Document\<close> holds a
  pointer to its configuration, which may be nil in a zero-valued document: the field
  \<open>conf\<close> is an option. The two maps of the style table are nil until the first
  registration; a nil map reads as empty and cannot be assigned to, so each map is an
  option of a partial function. The conflict counter is a Go \<^verbatim>\<open>int\<close>, on 64-bit
  platforms a 64-bit two's-complement integer that wraps on increment.

  Of the fields of \<^verbatim>\<open>Document\<close> the record keeps those that \<^verbatim>\<open>NewDocument\<close> and
  \<^verbatim>\<open>MakeStyle\<close> read or write: \<open>ID\<close> (the \<^verbatim>\<open>ID\<close> of the embedded \<^verbatim>\<open>Container.Object\<close>),
  \<open>DocStyle\<close> (the field \<^verbatim>\<open>Style\<close>, the accumulated stylesheet text; renamed because
  \<^verbatim>\<open>Styling\<close> has a field of the same name), the style table, \<open>NameSpace\<close> and \<open>conf\<close>.
\<close>

record Conf =
  GenerateEmbeddedStylesheet :: bool
  StylesheetUnifyStyles :: bool
  ScopeStyleDefinitions :: bool
  Embedded :: bool

record Styling =
  Class :: string
  Style :: string

type_synonym gomap = "(string \<rightharpoonup> string) option"

record styles =
  defMap :: gomap
  classMap :: gomap
  nConflict :: "64 word"

record Document =
  ID :: string
  DocStyle :: string
  styles :: styles
  NameSpace :: string
  conf :: "Conf option"

datatype panic = NilPointerDereference | AssignToNilMap

definition nameSpace :: string where
  "nameSpace = ''http://www.w3.org/2000/svg''"

text \<open>Reading a Go map: \<^verbatim>\<open>v, ok := m[k]\<close>; a nil map has no entry.\<close>

fun mapLookup :: "gomap \<Rightarrow> string \<Rightarrow> string option" where
  "mapLookup None k = None"
| "mapLookup (Some m) k = m k"

text \<open>Writing a Go map: \<^verbatim>\<open>m[k] = v\<close> panics on a nil map.\<close>

fun mapAssign :: "gomap \<Rightarrow> string \<Rightarrow> string \<Rightarrow> panic + gomap" where
  "mapAssign None k v = Inl AssignToNilMap"
| "mapAssign (Some m) k v = Inr (Some (m(k \<mapsto> v)))"

text \<open>\<^verbatim>\<open>NewDocument(c)\<close>: a nil configuration is replaced by the zero \<^verbatim>\<open>Conf\<close>.\<close>

definition NewDocument :: "Conf option \<Rightarrow> Document" where
  "NewDocument c =
     (let c' = (case c of
                  None \<Rightarrow> \<lparr>GenerateEmbeddedStylesheet = False, StylesheetUnifyStyles = False,
                            ScopeStyleDefinitions = False, Embedded = False\<rparr>
                | Some x \<Rightarrow> x)
      in \<lparr>ID = [], DocStyle = [],
          styles = \<lparr>defMap = None, classMap = None, nConflict = 0\<rparr>,
          NameSpace = (if \<not> Embedded c' then nameSpace else []),
          conf = Some c'\<rparr>)"

text \<open>
  The body of \<^verbatim>\<open>MakeStyle\<close> after the test of \<^verbatim>\<open>GenerateEmbeddedStylesheet\<close> is split
  into the steps of the source, each a function on the document state.

  \<open>allocMaps\<close>: \<^verbatim>\<open>if s.defMap == nil { s.defMap = make(...); s.classMap = make(...) }\<close>.
\<close>

definition allocMaps :: "styles \<Rightarrow> styles" where
  "allocMaps s = (if defMap s = None
                  then s\<lparr>defMap := Some Map.empty, classMap := Some Map.empty\<rparr>
                  else s)"

text \<open>\<open>resolveName\<close>:
  \<^verbatim>\<open>if _, exists := s.classMap[name]; exists { s.nConflict++; name += strconv.Itoa(s.nConflict) }\<close>.\<close>

definition resolveName :: "styles \<Rightarrow> string \<Rightarrow> styles \<times> string" where
  "resolveName s name =
     (if mapLookup (classMap s) name \<noteq> None
      then (s\<lparr>nConflict := nConflict s + 1\<rparr>, name @ Itoa (sint (nConflict s + 1)))
      else (s, name))"

text \<open>\<open>recordStyle\<close>: \<^verbatim>\<open>if d.conf.StylesheetUnifyStyles { s.defMap[style] = name }\<close> and
  \<^verbatim>\<open>s.classMap[name] = style\<close>.\<close>

definition recordStyle :: "Conf \<Rightarrow> styles \<Rightarrow> string \<Rightarrow> string \<Rightarrow> panic + styles" where
  "recordStyle c s name style =
     (case (if StylesheetUnifyStyles c then mapAssign (defMap s) style name
            else Inr (defMap s)) of
        Inl p \<Rightarrow> Inl p
      | Inr dm \<Rightarrow>
          (case mapAssign (classMap s) name style of
             Inl p \<Rightarrow> Inl p
           | Inr cm \<Rightarrow> Inr (s\<lparr>defMap := dm, classMap := cm\<rparr>)))"

text \<open>\<open>updateStyle\<close>: the three statements under the comment \<^verbatim>\<open>// update style\<close>.\<close>

definition updateStyle :: "Conf \<Rightarrow> string \<Rightarrow> string \<Rightarrow> string \<Rightarrow> string \<Rightarrow> string" where
  "updateStyle c docID st name style =
     (let st1 = (if st \<noteq> [] then st @ '' '' else st);
          st2 = (if ScopeStyleDefinitions c \<and> docID \<noteq> [] then st1 @ ''#'' @ docID @ '' '' else st1)
      in st2 @ ''.'' @ name @ '' {'' @ TrimSuffix style '';'' @ ''}'')"

text \<open>
  \<^verbatim>\<open>MakeStyle\<close> returns the \<^verbatim>\<open>Styling\<close> and the document as the call leaves it, or the
  panic that ends the call.
\<close>

definition MakeStyle :: "Document \<Rightarrow> string \<Rightarrow> string \<Rightarrow> panic + (Styling \<times> Document)" where
  "MakeStyle d name style =
     (case conf d of
        None \<Rightarrow> Inl NilPointerDereference
      | Some c \<Rightarrow>
          if \<not> GenerateEmbeddedStylesheet c then
            (if style \<noteq> [] then Inr (\<lparr>Class = [], Style = style\<rparr>, d)
             else Inr (\<lparr>Class = name, Style = []\<rparr>, d))
          else
            (let s = allocMaps (styles d) in
             case mapLookup (defMap s) style of
               Some class \<Rightarrow> Inr (\<lparr>Class = class, Style = []\<rparr>, d\<lparr>styles := s\<rparr>)
             | None \<Rightarrow>
                 (let (s1, name1) = resolveName s name in
                  case recordStyle c s1 name1 style of
                    Inl p \<Rightarrow> Inl p
                  | Inr s2 \<Rightarrow>
                      Inr (\<lparr>Class = name1, Style = []\<rparr>,
                           d\<lparr>styles := s2,
                             DocStyle := updateStyle c (ID d) (DocStyle d) name1 style\<rparr>))))"

text \<open>A sequence of calls on one document, the results in call order; a panic ends it.\<close>

fun MakeStyles :: "Document \<Rightarrow> (string \<times> string) list \<Rightarrow> panic + (Styling list \<times> Document)" where
  "MakeStyles d [] = Inr ([], d)"
| "MakeStyles d ((name, style) # calls) =
     (case MakeStyle d name style of
        Inl p \<Rightarrow> Inl p
      | Inr (st, d') \<Rightarrow>
          (case MakeStyles d' calls of
             Inl p \<Rightarrow> Inl p
           | Inr (sts, d'') \<Rightarrow> Inr (st # sts, d'')))"

text \<open>
  The documents the package produces: \<^verbatim>\<open>NewDocument\<close> sets the configuration, and the
  two maps are allocated together.
\<close>

definition wellFormed :: "Document \<Rightarrow> bool" where
  "wellFormed d \<longleftrightarrow> conf d \<noteq> None \<and> (defMap (styles d) = None) = (classMap (styles d) = None)"


text \<open>Configurations with the embedded stylesheet switched on, and what a caller
  observes of a sequence of calls: the class names returned and the stylesheet text.\<close>

definition embedConf :: "bool \<Rightarrow> bool \<Rightarrow> Conf" where
  "embedConf unify scope =
     \<lparr>GenerateEmbeddedStylesheet = True, StylesheetUnifyStyles = unify,
      ScopeStyleDefinitions = scope, Embedded = False\<rparr>"

definition observe :: "panic + (Styling list \<times> Document) \<Rightarrow> panic + (string list \<times> string)" where
  "observe r = (case r of Inl p \<Rightarrow> Inl p | Inr (sts, d) \<Rightarrow> Inr (map Class sts, DocStyle d))"


section \<open>List attributes, points and transform lists (text.go, shapes.go)\<close>

text \<open>
  \<^verbatim>\<open>xml.Name\<close> and \<^verbatim>\<open>xml.Attr\<close> are the structs of Go's \<^verbatim>\<open>encoding/xml\<close>; the field
  \<^verbatim>\<open>Name\<close> of \<^verbatim>\<open>xml.Attr\<close> is \<open>AttrName\<close> here. A marshalling hook returns an attribute
  and an \<^verbatim>\<open>error\<close>, which is \<open>None\<close> for Go's nil.
\<close>

record xml_Name =
  Space :: string
  Local :: string

record xml_Attr =
  AttrName :: xml_Name
  Value :: string

datatype error = Error string

definition makeListAttr :: "xml_Name \<Rightarrow> string list \<Rightarrow> xml_Attr \<times> error option" where
  "makeListAttr name values = (\<lparr>AttrName = name, Value = Join values '' ''\<rparr>, None)"

text \<open>
  A \<^verbatim>\<open>float64\<close> is a value of a type \<open>'f\<close> that the model leaves open, and
  \<^verbatim>\<open>strconv.FormatFloat(f, 'g', -1, 64)\<close> is a parameter \<open>ff\<close> of every function that formats
  one: the repository does not contain the formatter, and the claims are about what is
  done with its results. The conversion \<^verbatim>\<open>float64(i)\<close> of an \<^verbatim>\<open>int\<close> is the parameter
  \<open>f64\<close>, and the zero \<^verbatim>\<open>float64\<close> is \<open>f64 0\<close>.

  \<^verbatim>\<open>Points\<close> is \<^verbatim>\<open>[][2]float64\<close>. \<^verbatim>\<open>Points.MarshalXMLAttr\<close> allocates \<^verbatim>\<open>len(pts)\<close> empty
  strings and assigns \<^verbatim>\<open>s[i]\<close> for each index and point of the range loop.
\<close>

type_synonym 'f Points = "('f \<times> 'f) list"

definition Points_MarshalXMLAttr ::
  "('f \<Rightarrow> string) \<Rightarrow> 'f Points \<Rightarrow> xml_Name \<Rightarrow> xml_Attr \<times> error option" where
  "Points_MarshalXMLAttr ff pts name =
     (let s = replicate (length pts) [];
          s = foldl (\<lambda>s (i, pt). s[i := ff (fst pt) @ '','' @ ff (snd pt)]) s (enumerate 0 pts)
      in makeListAttr name s)"

definition AddInt :: "(int \<Rightarrow> 'f) \<Rightarrow> 'f Points \<Rightarrow> int \<Rightarrow> int \<Rightarrow> 'f Points" where
  "AddInt f64 pts x y = pts @ [(f64 x, f64 y)]"

text \<open>
  A \<^verbatim>\<open>TransformArg\<close> is an \<^verbatim>\<open>intArg\<close> or a \<^verbatim>\<open>floatArg\<close>, the two types of the package with a
  \<^verbatim>\<open>String\<close> method. The values of an \<^verbatim>\<open>intArg\<close> are taken from all integers; no
  arithmetic is done on them.
\<close>

datatype 'f TransformArg = intArg int | floatArg 'f

fun String :: "('f \<Rightarrow> string) \<Rightarrow> 'f TransformArg \<Rightarrow> string" where
  "String ff (intArg i) = Itoa i"
| "String ff (floatArg f) = ff f"

datatype 'f Transform = Transform (Name: string) (Args: "'f TransformArg list")

type_synonym 'f TransformList = "'f Transform list"

definition translateInt :: "int \<Rightarrow> int \<Rightarrow> 'f Transform" where
  "translateInt x y = Transform ''translate'' [intArg x, intArg y]"

definition ftrans :: "string \<Rightarrow> 'f \<Rightarrow> 'f Transform" where
  "ftrans name f = Transform name [floatArg f]"

text \<open>\<^verbatim>\<open>tl.append(t)\<close> and the four builders, each returning the list it extended.\<close>

definition append_transform :: "'f TransformList \<Rightarrow> 'f Transform \<Rightarrow> 'f TransformList" where
  "append_transform tlist t = tlist @ [t]"

definition TranslateInt :: "'f TransformList \<Rightarrow> int \<Rightarrow> int \<Rightarrow> 'f TransformList" where
  "TranslateInt tlist x y = append_transform tlist (translateInt x y)"

definition RotateOrig :: "'f TransformList \<Rightarrow> 'f \<Rightarrow> 'f TransformList" where
  "RotateOrig tlist degrees = append_transform tlist (ftrans ''rotate'' degrees)"

definition SkewX :: "'f TransformList \<Rightarrow> 'f \<Rightarrow> 'f TransformList" where
  "SkewX tlist degrees = append_transform tlist (ftrans ''skewX'' degrees)"

definition SkewY :: "'f TransformList \<Rightarrow> 'f \<Rightarrow> 'f TransformList" where
  "SkewY tlist degrees = append_transform tlist (ftrans ''skewY'' degrees)"

text \<open>
  \<^verbatim>\<open>TransformList.MarshalXMLAttr\<close>: for each index and transform of the range loop the
  slice \<^verbatim>\<open>args\<close> is cut to length zero, filled by appending the \<^verbatim>\<open>String()\<close> of
  \<^verbatim>\<open>t.Args[ia]\<close> for each index \<^verbatim>\<open>ia\<close>, and \<^verbatim>\<open>s[i]\<close> is assigned. \<^verbatim>\<open>strings.Join\<close> copies
  the strings, so that reusing the backing array of \<^verbatim>\<open>args\<close> changes no earlier \<^verbatim>\<open>s[i]\<close>.
\<close>

definition transformArgs :: "('f \<Rightarrow> string) \<Rightarrow> 'f Transform \<Rightarrow> string list" where
  "transformArgs ff t =
     foldl (\<lambda>args ia. args @ [String ff (Args t ! ia)]) [] [0..<length (Args t)]"

definition TransformList_MarshalXMLAttr ::
  "('f \<Rightarrow> string) \<Rightarrow> 'f TransformList \<Rightarrow> xml_Name \<Rightarrow> xml_Attr \<times> error option" where
  "TransformList_MarshalXMLAttr ff tlist name =
     (let s = replicate (length tlist) [];
          s = foldl (\<lambda>s (i, t). s[i := Name t @ ''('' @ Join (transformArgs ff t) '','' @ '')''])
                s (enumerate 0 tlist)
      in makeListAttr name s)"


section \<open>Shape elements (shapes.go)\<close>

text \<open>
  An \<^verbatim>\<open>Object\<close> has an identifier, a transform list and a styling; a \<^verbatim>\<open>ShapeObject\<close> adds
  \<^verbatim>\<open>PathLength\<close>. The field \<^verbatim>\<open>ID\<close> of \<^verbatim>\<open>Object\<close> is \<open>ObjectID\<close> here. The elements are
  the struct types of shapes.go; an \<^verbatim>\<open>ElemList\<close> holds pointers to them, and a constructor
  that returns a pointer into the element it appended returns the new list and the index of
  that element.
\<close>

datatype 'f Object =
  MkObject (ObjectID: string) (TransformList: "'f TransformList") (Styling: Styling)

datatype 'f ShapeObject = MkShapeObject (Object: "'f Object") (PathLength: 'f)

datatype 'f Elem =
    line 'f 'f 'f 'f "'f ShapeObject"
  | Rect 'f 'f 'f 'f 'f 'f "'f ShapeObject"
  | circle 'f 'f 'f "'f ShapeObject"
  | ellipse 'f 'f 'f 'f "'f ShapeObject"
  | PolyLine "'f Points" "'f ShapeObject"
  | polygon "'f Points" "'f ShapeObject"
  | path string "'f ShapeObject"

type_synonym 'f ElemList = "'f Elem list"

text \<open>The element name of each struct: the tag of its field \<^verbatim>\<open>XMLName\<close>.\<close>

fun XMLName :: "'f Elem \<Rightarrow> string" where
  "XMLName (line x1 y1 x2 y2 so) = ''line''"
| "XMLName (Rect x y w h rx ry so) = ''rect''"
| "XMLName (circle x y r so) = ''circle''"
| "XMLName (ellipse x y rx ry so) = ''circle''"
| "XMLName (PolyLine pts so) = ''polyline''"
| "XMLName (polygon pts so) = ''polygon''"
| "XMLName (path d so) = ''path''"

text \<open>The \<^verbatim>\<open>float64\<close> fields that a struct declares itself with an \<^verbatim>\<open>attr\<close> tag, in the
  order of declaration: attribute name and value.\<close>

fun floatAttrs :: "'f Elem \<Rightarrow> (string \<times> 'f) list" where
  "floatAttrs (line x1 y1 x2 y2 so) = [(''x1'', x1), (''y1'', y1), (''x2'', x2), (''y2'', y2)]"
| "floatAttrs (Rect x y w h rx ry so) =
     [(''x'', x), (''y'', y), (''width'', w), (''height'', h), (''rx'', rx), (''ry'', ry)]"
| "floatAttrs (circle x y r so) = [(''cx'', x), (''cy'', y), (''r'', r)]"
| "floatAttrs (ellipse x y rx ry so) = [(''cx'', x), (''cy'', y), (''rx'', rx), (''ry'', ry)]"
| "floatAttrs (PolyLine pts so) = []"
| "floatAttrs (polygon pts so) = []"
| "floatAttrs (path d so) = []"

definition zeroShapeObject :: "(int \<Rightarrow> 'f) \<Rightarrow> 'f ShapeObject" where
  "zeroShapeObject f64 = MkShapeObject (MkObject [] [] \<lparr>Class = [], Style = []\<rparr>) (f64 0)"

definition append_elem :: "'f ElemList \<Rightarrow> 'f Elem \<Rightarrow> 'f ElemList" where
  "append_elem el i = el @ [i]"

definition CircleInt :: "(int \<Rightarrow> 'f) \<Rightarrow> 'f ElemList \<Rightarrow> int \<Rightarrow> int \<Rightarrow> int \<Rightarrow> 'f ElemList \<times> nat" where
  "CircleInt f64 el cx cy r =
     (append_elem el (circle (f64 cx) (f64 cy) (f64 r) (zeroShapeObject f64)), length el)"

definition EllipseInt ::
  "(int \<Rightarrow> 'f) \<Rightarrow> 'f ElemList \<Rightarrow> int \<Rightarrow> int \<Rightarrow> int \<Rightarrow> int \<Rightarrow> 'f ElemList \<times> nat" where
  "EllipseInt f64 el cx cy rx ry =
     (append_elem el (ellipse (f64 cx) (f64 cy) (f64 rx) (f64 ry) (zeroShapeObject f64)),
      length el)"


section \<open>The three paths of MakeStyle with an embedded stylesheet\<close>

lemmas eval_defs = NewDocument_def Itoa_def digits.simps TrimSuffix_def HasSuffix_def
  embedConf_def observe_def nameSpace_def

lemma allocMaps_Some [simp]: "defMap s = Some dm \<Longrightarrow> allocMaps s = s"
  by (simp add: allocMaps_def)

lemma allocMaps_None [simp]:
  "defMap s = None \<Longrightarrow> allocMaps s = s\<lparr>defMap := Some Map.empty, classMap := Some Map.empty\<rparr>"
  by (simp add: allocMaps_def)

lemma MakeStyle_found:
  assumes "conf d = Some c" and "GenerateEmbeddedStylesheet c"
    and "mapLookup (defMap (styles d)) style = Some class"
  shows "MakeStyle d name style = Inr (\<lparr>Class = class, Style = []\<rparr>, d)"
proof -
  from assms(3) obtain dm where dm: "defMap (styles d) = Some dm"
    by (cases "defMap (styles d)") simp_all
  show ?thesis using assms dm by (simp add: MakeStyle_def)
qed

lemma MakeStyle_fresh:
  assumes "conf d = Some c" and "GenerateEmbeddedStylesheet c"
    and "defMap (styles d) = None"
  shows "MakeStyle d name style =
     Inr (\<lparr>Class = name, Style = []\<rparr>,
          d\<lparr>styles := (styles d)\<lparr>
               defMap := Some (if StylesheetUnifyStyles c then [style \<mapsto> name] else Map.empty),
               classMap := Some [name \<mapsto> style]\<rparr>,
            DocStyle := updateStyle c (ID d) (DocStyle d) name style\<rparr>)"
  using assms by (simp add: MakeStyle_def resolveName_def recordStyle_def)

lemma MakeStyle_register:
  assumes "conf d = Some c" and "GenerateEmbeddedStylesheet c"
    and "defMap (styles d) = Some dm" and "dm style = None" and "classMap (styles d) = Some cm"
  shows "MakeStyle d name style =
     (let name1 = (if cm name \<noteq> None then name @ Itoa (sint (nConflict (styles d) + 1)) else name)
      in Inr (\<lparr>Class = name1, Style = []\<rparr>,
          d\<lparr>styles := (styles d)\<lparr>
               nConflict := (if cm name \<noteq> None then nConflict (styles d) + 1
                             else nConflict (styles d)),
               defMap := Some (if StylesheetUnifyStyles c then dm(style \<mapsto> name1) else dm),
               classMap := Some (cm(name1 \<mapsto> style))\<rparr>,
            DocStyle := updateStyle c (ID d) (DocStyle d) name1 style\<rparr>))"
  using assms by (simp add: MakeStyle_def resolveName_def recordStyle_def Let_def)

lemma MakeStyle_nil_classMap:
  assumes "conf d = Some c" and "GenerateEmbeddedStylesheet c"
    and "defMap (styles d) = Some dm" and "dm style = None" and "classMap (styles d) = None"
  shows "MakeStyle d name style = Inl AssignToNilMap"
  using assms by (cases "StylesheetUnifyStyles c") (simp_all add: MakeStyle_def resolveName_def recordStyle_def)

lemma MakeStyle_nil_conf: "conf d = None \<Longrightarrow> MakeStyle d name style = Inl NilPointerDereference"
  by (simp add: MakeStyle_def)

text \<open>Whenever a call registers a rule, the new stylesheet text is \<open>updateStyle\<close> of the old
  one with the class name the call returns.\<close>

lemma MakeStyle_new_rule:
  assumes ok: "MakeStyle d name style = Inr (st, d')"
    and c: "conf d = Some c" "GenerateEmbeddedStylesheet c"
    and new: "mapLookup (defMap (styles d)) style = None"
  shows "DocStyle d' = updateStyle c (ID d) (DocStyle d) (Class st) style"
proof (cases "defMap (styles d)")
  case None
  with ok c show ?thesis by (auto simp: MakeStyle_fresh)
next
  case (Some dm)
  with new have dm: "dm style = None" by simp
  show ?thesis
  proof (cases "classMap (styles d)")
    case None
    with ok c Some dm show ?thesis by (simp add: MakeStyle_nil_classMap)
  next
    case (Some cm)
    with ok c \<open>defMap (styles d) = Some dm\<close> dm show ?thesis
      by (auto simp: MakeStyle_register Let_def)
  qed
qed

lemma wellFormed_NewDocument: "wellFormed (NewDocument c)"
  by (simp add: wellFormed_def NewDocument_def Let_def)

lemma MakeStyle_wellFormed:
  assumes "wellFormed d"
  shows "\<exists>st d'. MakeStyle d name style = Inr (st, d') \<and> wellFormed d'"
proof -
  from assms obtain c where c: "conf d = Some c" by (auto simp: wellFormed_def)
  show ?thesis
  proof (cases "GenerateEmbeddedStylesheet c")
    case False
    with c assms show ?thesis by (simp add: MakeStyle_def)
  next
    case True
    show ?thesis
    proof (cases "mapLookup (defMap (styles d)) style")
      case (Some cl)
      with c True assms show ?thesis by (simp add: MakeStyle_found)
    next
      case None
      show ?thesis
      proof (cases "defMap (styles d)")
        case None
        with c True show ?thesis by (simp add: MakeStyle_fresh wellFormed_def)
      next
        case (Some dm)
        with assms obtain cm where cm: "classMap (styles d) = Some cm"
          by (auto simp: wellFormed_def)
        from Some \<open>mapLookup (defMap (styles d)) style = None\<close> have "dm style = None" by simp
        with c True Some cm show ?thesis
          by (simp add: MakeStyle_register Let_def wellFormed_def)
      qed
    qed
  qed
qed

text \<open>Every sequence of calls on a well-formed document returns.\<close>

lemma MakeStyles_wellFormed:
  assumes "wellFormed d"
  shows "\<exists>sts d'. MakeStyles d calls = Inr (sts, d') \<and> wellFormed d'"
  using assms
proof (induction calls arbitrary: d)
  case Nil
  then show ?case by simp
next
  case (Cons call calls)
  obtain name style where call: "call = (name, style)" by (cases call)
  from Cons.prems obtain st d1 where
    one: "MakeStyle d name style = Inr (st, d1)" and wf1: "wellFormed d1"
    using MakeStyle_wellFormed by blast
  from Cons.IH [OF wf1] obtain sts d2 where
    rest: "MakeStyles d1 calls = Inr (sts, d2)" and wf2: "wellFormed d2"
    by blast
  from call one rest have "MakeStyles d (call # calls) = Inr (st # sts, d2)" by simp
  with wf2 show ?case by blast
qed

text \<open>The conflict counter moves by at most one step per call.\<close>

lemma MakeStyle_nConflict_step:
  assumes ok: "MakeStyle d name style = Inr (st, d')"
  shows "nConflict (styles d') = nConflict (styles d)
       \<or> nConflict (styles d') = nConflict (styles d) + 1"
proof (cases "conf d")
  case None
  with ok show ?thesis by (simp add: MakeStyle_nil_conf)
next
  case (Some c)
  show ?thesis
  proof (cases "GenerateEmbeddedStylesheet c")
    case False
    with Some ok show ?thesis by (auto simp: MakeStyle_def split: if_splits)
  next
    case True
    show ?thesis
    proof (cases "mapLookup (defMap (styles d)) style")
      case (Some cl)
      with \<open>conf d = Some c\<close> True ok show ?thesis by (auto simp: MakeStyle_found)
    next
      case None
      show ?thesis
      proof (cases "defMap (styles d)")
        case None
        with \<open>conf d = Some c\<close> True ok show ?thesis by (auto simp: MakeStyle_fresh)
      next
        case (Some dm)
        with \<open>mapLookup (defMap (styles d)) style = None\<close> have dm: "dm style = None" by simp
        show ?thesis
        proof (cases "classMap (styles d)")
          case None
          with \<open>conf d = Some c\<close> True Some dm ok show ?thesis
            by (simp add: MakeStyle_nil_classMap)
        next
          case (Some cm)
          with \<open>conf d = Some c\<close> True \<open>defMap (styles d) = Some dm\<close> dm ok show ?thesis
            by (auto simp: MakeStyle_register Let_def split: if_splits)
        qed
      qed
    qed
  qed
qed

section \<open>Claims about MakeStyle\<close>

text \<open>
  C1 (as amended). With \<^verbatim>\<open>GenerateEmbeddedStylesheet\<close> false and a non-empty style text,
  \<^verbatim>\<open>MakeStyle\<close> returns a \<^verbatim>\<open>Styling\<close> whose \<^verbatim>\<open>Style\<close> is the raw style text exactly as
  given (a trailing \<^verbatim>\<open>;\<close> is kept) and whose \<^verbatim>\<open>Class\<close> is empty, and the document,
  with its style table and stylesheet text, is unchanged.
\<close>

theorem MakeStyle_inline:
  assumes "conf d = Some c" and "\<not> GenerateEmbeddedStylesheet c" and "style \<noteq> []"
  shows "MakeStyle d name style = Inr (\<lparr>Class = [], Style = style\<rparr>, d)"
  using assms by (simp add: MakeStyle_def)

theorem MakeStyle_inline_witness:
  "MakeStyle (NewDocument None) ''foo'' ''fill:red;''
     = Inr (\<lparr>Class = [], Style = ''fill:red;''\<rparr>, NewDocument None)"
  by (rule MakeStyle_inline [where c = "the (conf (NewDocument None))"])
     (simp_all add: NewDocument_def)

text \<open>
  C1 as stated fails: on a new document without embedded stylesheet,
  \<^verbatim>\<open>MakeStyle("foo", "fill:red;")\<close> returns the style text with its trailing \<^verbatim>\<open>;\<close>, not
  the trimmed text \<^verbatim>\<open>fill:red\<close>, and \<^verbatim>\<open>MakeStyle("foo", "")\<close> returns the class
  \<^verbatim>\<open>foo\<close>, not an empty class.
\<close>

theorem MakeStyle_inline_counterexample:
  "MakeStyle (NewDocument None) ''foo'' ''fill:red;''
     = Inr (\<lparr>Class = [], Style = ''fill:red;''\<rparr>, NewDocument None)
   \<and> MakeStyle (NewDocument None) ''foo'' ''fill:red;''
     \<noteq> Inr (\<lparr>Class = [], Style = TrimSuffix ''fill:red;'' '';''\<rparr>, NewDocument None)
   \<and> TrimSuffix ''fill:red;'' '';'' = ''fill:red''
   \<and> MakeStyle (NewDocument None) ''foo'' []
     = Inr (\<lparr>Class = ''foo'', Style = []\<rparr>, NewDocument None)
   \<and> MakeStyle (NewDocument None) ''foo'' []
     \<noteq> Inr (\<lparr>Class = [], Style = TrimSuffix [] '';''\<rparr>, NewDocument None)"
  by (simp add: MakeStyle_def NewDocument_def TrimSuffix_def HasSuffix_def)

text \<open>
  C9. With \<^verbatim>\<open>GenerateEmbeddedStylesheet\<close> false and the empty style text,
  \<^verbatim>\<open>MakeStyle(name, "")\<close> returns a \<^verbatim>\<open>Styling\<close> whose \<^verbatim>\<open>Class\<close> is the requested name
  and whose \<^verbatim>\<open>Style\<close> is empty; the document is unchanged.
\<close>

theorem MakeStyle_empty_style_class_only:
  assumes "conf d = Some c" and "\<not> GenerateEmbeddedStylesheet c"
  shows "MakeStyle d name [] = Inr (\<lparr>Class = name, Style = []\<rparr>, d)"
  using assms by (simp add: MakeStyle_def)

theorem MakeStyle_empty_style_class_only_witness:
  "MakeStyle (NewDocument None) ''foo'' []
     = Inr (\<lparr>Class = ''foo'', Style = []\<rparr>, NewDocument None)"
  by (rule MakeStyle_empty_style_class_only [where c = "the (conf (NewDocument None))"])
     (simp_all add: NewDocument_def)

text \<open>
  C3. With \<^verbatim>\<open>GenerateEmbeddedStylesheet\<close> set, a style text that the style table does not
  hold and a requested name that the class table holds, \<^verbatim>\<open>MakeStyle\<close> increments the
  conflict counter and registers and returns the requested name followed by the decimal
  text of the new counter value. On a new document, \<^verbatim>\<open>MakeStyle("a", "fill:red;")\<close> and
  then \<^verbatim>\<open>MakeStyle("a", "fill:blue;")\<close> return the classes \<^verbatim>\<open>a\<close> and \<^verbatim>\<open>a1\<close>.
\<close>

theorem MakeStyle_conflict:
  "(conf d = Some c \<and> GenerateEmbeddedStylesheet c
      \<and> defMap (styles d) = Some dm \<and> dm style = None
      \<and> classMap (styles d) = Some cm \<and> cm name \<noteq> None
    \<longrightarrow> MakeStyle d name style =
          Inr (\<lparr>Class = name @ Itoa (sint (nConflict (styles d) + 1)), Style = []\<rparr>,
               d\<lparr>styles := (styles d)\<lparr>
                    nConflict := nConflict (styles d) + 1,
                    defMap := Some (if StylesheetUnifyStyles c
                                    then dm(style \<mapsto> name @ Itoa (sint (nConflict (styles d) + 1)))
                                    else dm),
                    classMap := Some (cm(name @ Itoa (sint (nConflict (styles d) + 1)) \<mapsto> style))\<rparr>,
                 DocStyle := updateStyle c (ID d) (DocStyle d)
                               (name @ Itoa (sint (nConflict (styles d) + 1))) style\<rparr>))
   \<and> observe (MakeStyles (NewDocument (Some (embedConf unify scope)))
                [(''a'', ''fill:red;''), (''a'', ''fill:blue;'')])
       = Inr ([''a'', ''a1''], ''.a {fill:red} .a1 {fill:blue}'')"
proof (intro conjI impI)
  assume h: "conf d = Some c \<and> GenerateEmbeddedStylesheet c
      \<and> defMap (styles d) = Some dm \<and> dm style = None
      \<and> classMap (styles d) = Some cm \<and> cm name \<noteq> None"
  then show "MakeStyle d name style =
          Inr (\<lparr>Class = name @ Itoa (sint (nConflict (styles d) + 1)), Style = []\<rparr>,
               d\<lparr>styles := (styles d)\<lparr>
                    nConflict := nConflict (styles d) + 1,
                    defMap := Some (if StylesheetUnifyStyles c
                                    then dm(style \<mapsto> name @ Itoa (sint (nConflict (styles d) + 1)))
                                    else dm),
                    classMap := Some (cm(name @ Itoa (sint (nConflict (styles d) + 1)) \<mapsto> style))\<rparr>,
                 DocStyle := updateStyle c (ID d) (DocStyle d)
                               (name @ Itoa (sint (nConflict (styles d) + 1))) style\<rparr>)"
    by (simp add: MakeStyle_register [where c = c and dm = dm and cm = cm] Let_def)
next
  show "observe (MakeStyles (NewDocument (Some (embedConf unify scope)))
                [(''a'', ''fill:red;''), (''a'', ''fill:blue;'')])
       = Inr ([''a'', ''a1''], ''.a {fill:red} .a1 {fill:blue}'')"
    by (cases unify)
       (simp_all add: MakeStyle_def resolveName_def recordStyle_def updateStyle_def eval_defs)
qed


theorem MakeStyle_conflict_witness:
  "MakeStyle \<lparr>ID = [], DocStyle = ''.a {fill:red}'',
              styles = \<lparr>defMap = Some Map.empty, classMap = Some [''a'' \<mapsto> ''fill:red;''],
                        nConflict = 0\<rparr>,
              NameSpace = nameSpace, conf = Some (embedConf False False)\<rparr>
     ''a'' ''fill:blue;''
   = Inr (\<lparr>Class = ''a1'', Style = []\<rparr>,
          \<lparr>ID = [], DocStyle = ''.a {fill:red} .a1 {fill:blue}'',
           styles = \<lparr>defMap = Some Map.empty,
                     classMap = Some [''a'' \<mapsto> ''fill:red;'', ''a1'' \<mapsto> ''fill:blue;''],
                     nConflict = 1\<rparr>,
           NameSpace = nameSpace, conf = Some (embedConf False False)\<rparr>)"
  using MakeStyle_conflict
    [of "\<lparr>ID = [], DocStyle = ''.a {fill:red}'',
          styles = \<lparr>defMap = Some Map.empty, classMap = Some [''a'' \<mapsto> ''fill:red;''],
                    nConflict = 0\<rparr>,
          NameSpace = nameSpace, conf = Some (embedConf False False)\<rparr>"
        "embedConf False False" Map.empty "''fill:blue;''" "[''a'' \<mapsto> ''fill:red;'']" "''a''"]
  by (simp add: updateStyle_def eval_defs)



text \<open>
  C5. Whenever \<^verbatim>\<open>MakeStyle\<close> registers a new rule (the embedded stylesheet is on and the
  style table does not hold the style text), the stylesheet text is the old text followed
  by: one space if the old text was not empty; then, if \<^verbatim>\<open>ScopeStyleDefinitions\<close> is set
  (the document's \<^verbatim>\<open>ID\<close> being non-empty), \<^verbatim>\<open>#\<close>, the \<^verbatim>\<open>ID\<close> and a space; then \<^verbatim>\<open>.\<close>,
  the class name the call returns, \<^verbatim>\<open> {\<close>, the style text without a trailing \<^verbatim>\<open>;\<close>,
  and \<^verbatim>\<open>}\<close>.
\<close>

theorem MakeStyle_rule_text:
  assumes "MakeStyle d name style = Inr (st, d')"
    and "conf d = Some c" and "GenerateEmbeddedStylesheet c"
    and "mapLookup (defMap (styles d)) style = None"
    and "ScopeStyleDefinitions c \<longrightarrow> ID d \<noteq> []"
  shows "DocStyle d' =
           DocStyle d
           @ (if DocStyle d \<noteq> [] then '' '' else [])
           @ (if ScopeStyleDefinitions c then ''#'' @ ID d @ '' '' else [])
           @ ''.'' @ Class st @ '' {'' @ TrimSuffix style '';'' @ ''}''"
proof -
  have "DocStyle d' = updateStyle c (ID d) (DocStyle d) (Class st) style"
    using assms(1-4) by (rule MakeStyle_new_rule)
  with assms(5) show ?thesis
    by (simp add: updateStyle_def)
qed

theorem MakeStyle_rule_text_witness:
  "DocStyle \<lparr>ID = ''doc'', DocStyle = ''.a {fill:red} #doc .a1 {fill:blue}'',
             styles = \<lparr>defMap = Some Map.empty,
                       classMap = Some [''a'' \<mapsto> ''fill:red;'', ''a1'' \<mapsto> ''fill:blue;''],
                       nConflict = 1\<rparr>,
             NameSpace = nameSpace, conf = Some (embedConf False True)\<rparr>
   = ''.a {fill:red}'' @ '' '' @ (''#'' @ ''doc'' @ '' '') @ ''.'' @ ''a1'' @ '' {''
     @ TrimSuffix ''fill:blue;'' '';'' @ ''}''"
proof -
  let ?d = "\<lparr>ID = ''doc'', DocStyle = ''.a {fill:red}'',
             styles = \<lparr>defMap = Some Map.empty, classMap = Some [''a'' \<mapsto> ''fill:red;''],
                       nConflict = 0\<rparr>,
             NameSpace = nameSpace, conf = Some (embedConf False True)\<rparr>"
  let ?d' = "\<lparr>ID = ''doc'', DocStyle = ''.a {fill:red} #doc .a1 {fill:blue}'',
             styles = \<lparr>defMap = Some Map.empty,
                       classMap = Some [''a'' \<mapsto> ''fill:red;'', ''a1'' \<mapsto> ''fill:blue;''],
                       nConflict = 1\<rparr>,
             NameSpace = nameSpace, conf = Some (embedConf False True)\<rparr>"
  have call: "MakeStyle ?d ''a'' ''fill:blue;'' = Inr (\<lparr>Class = ''a1'', Style = []\<rparr>, ?d')"
    by (simp add: MakeStyle_def resolveName_def recordStyle_def updateStyle_def eval_defs)
  have c: "conf ?d = Some (embedConf False True)" by simp
  have g: "GenerateEmbeddedStylesheet (embedConf False True)" by (simp add: embedConf_def)
  have new: "mapLookup (defMap (styles ?d)) ''fill:blue;'' = None" by simp
  have sc: "ScopeStyleDefinitions (embedConf False True) \<longrightarrow> ID ?d \<noteq> []" by simp
  from MakeStyle_rule_text [OF call c g new sc] show ?thesis
    by (simp add: embedConf_def)
qed

text \<open>
  C10 (as amended). On a document made by \<^verbatim>\<open>NewDocument\<close> and changed by \<^verbatim>\<open>MakeStyle\<close>
  only, \<^verbatim>\<open>MakeStyle\<close> always returns a \<^verbatim>\<open>Styling\<close> and never panics: such documents are
  well formed, a call on a well-formed document returns and leaves a well-formed document,
  and so every sequence of calls on a new document returns. When \<^verbatim>\<open>ScopeStyleDefinitions\<close>
  is set and the document's \<^verbatim>\<open>ID\<close> is empty, a call that registers a rule still returns,
  and appends the rule without the scope prefix.
\<close>

theorem MakeStyle_total:
  "wellFormed (NewDocument c0)
   \<and> (wellFormed d \<longrightarrow> (\<exists>st d'. MakeStyle d name style = Inr (st, d') \<and> wellFormed d'))
   \<and> (wellFormed d \<and> conf d = Some c \<and> GenerateEmbeddedStylesheet c
        \<and> ScopeStyleDefinitions c \<and> ID d = []
        \<and> mapLookup (defMap (styles d)) style = None
      \<longrightarrow> (\<exists>st d'. MakeStyle d name style = Inr (st, d')
             \<and> DocStyle d' = DocStyle d @ (if DocStyle d \<noteq> [] then '' '' else [])
                               @ ''.'' @ Class st @ '' {'' @ TrimSuffix style '';'' @ ''}''))
   \<and> (\<exists>sts d'. MakeStyles (NewDocument c0) calls = Inr (sts, d') \<and> wellFormed d')"
proof (intro conjI impI)
  show "wellFormed (NewDocument c0)" by (rule wellFormed_NewDocument)
next
  show "\<exists>sts d'. MakeStyles (NewDocument c0) calls = Inr (sts, d') \<and> wellFormed d'"
    using wellFormed_NewDocument by (rule MakeStyles_wellFormed)
next
  assume "wellFormed d"
  then show "\<exists>st d'. MakeStyle d name style = Inr (st, d') \<and> wellFormed d'"
    by (rule MakeStyle_wellFormed)
next
  assume h: "wellFormed d \<and> conf d = Some c \<and> GenerateEmbeddedStylesheet c
        \<and> ScopeStyleDefinitions c \<and> ID d = []
        \<and> mapLookup (defMap (styles d)) style = None"
  then have "wellFormed d" by simp
  then obtain st d' where ok: "MakeStyle d name style = Inr (st, d')"
    using MakeStyle_wellFormed by blast
  from h have c: "conf d = Some c" and g: "GenerateEmbeddedStylesheet c"
    and new: "mapLookup (defMap (styles d)) style = None" and noid: "ID d = []"
    by simp_all
  have "DocStyle d' = updateStyle c (ID d) (DocStyle d) (Class st) style"
    using ok c g new by (rule MakeStyle_new_rule)
  with noid have "DocStyle d' = DocStyle d @ (if DocStyle d \<noteq> [] then '' '' else [])
                               @ ''.'' @ Class st @ '' {'' @ TrimSuffix style '';'' @ ''}''"
    by (simp add: updateStyle_def)
  with ok show "\<exists>st d'. MakeStyle d name style = Inr (st, d')
             \<and> DocStyle d' = DocStyle d @ (if DocStyle d \<noteq> [] then '' '' else [])
                               @ ''.'' @ Class st @ '' {'' @ TrimSuffix style '';'' @ ''}''"
    by blast
qed

theorem MakeStyle_total_witness:
  "wellFormed (NewDocument (Some (embedConf False True)))
   \<and> (\<exists>st d'. MakeStyle (NewDocument (Some (embedConf False True))) ''a'' ''fill:red;''
                = Inr (st, d')
             \<and> DocStyle d' = ''.'' @ Class st @ '' {'' @ TrimSuffix ''fill:red;'' '';'' @ ''}'')"
proof -
  let ?d = "NewDocument (Some (embedConf False True))"
  have wf: "wellFormed ?d" by (rule wellFormed_NewDocument)
  have h: "wellFormed ?d \<and> conf ?d = Some (embedConf False True)
        \<and> GenerateEmbeddedStylesheet (embedConf False True)
        \<and> ScopeStyleDefinitions (embedConf False True) \<and> ID ?d = []
        \<and> mapLookup (defMap (styles ?d)) ''fill:red;'' = None"
    using wf by (simp add: NewDocument_def Let_def embedConf_def)
  have d0: "DocStyle ?d = []" by (simp add: NewDocument_def Let_def)
  from MakeStyle_total [of "Some (embedConf False True)" ?d "''a''" "''fill:red;''"
                           "embedConf False True"] h
  have "\<exists>st d'. MakeStyle ?d ''a'' ''fill:red;'' = Inr (st, d')
             \<and> DocStyle d' = DocStyle ?d @ (if DocStyle ?d \<noteq> [] then '' '' else [])
                   @ ''.'' @ Class st @ '' {'' @ TrimSuffix ''fill:red;'' '';'' @ ''}''"
    by blast
  with wf d0 show ?thesis by simp
qed

text \<open>
  C10 as stated fails: \<^verbatim>\<open>MakeStyle\<close> is not total on every \<^verbatim>\<open>Document\<close>. The zero-valued
  document, which a caller gets from \<^verbatim>\<open>new(Document)\<close> without \<^verbatim>\<open>NewDocument\<close>, has a nil
  configuration and is not well formed; the first statement of \<^verbatim>\<open>MakeStyle\<close> dereferences
  \<^verbatim>\<open>d.conf\<close> and the call panics instead of returning a \<^verbatim>\<open>Styling\<close>.
\<close>

theorem MakeStyle_total_counterexample:
  "MakeStyle \<lparr>ID = [], DocStyle = [],
              styles = \<lparr>defMap = None, classMap = None, nConflict = 0\<rparr>,
              NameSpace = [], conf = None\<rparr> ''a'' ''fill:red;''
     = Inl NilPointerDereference
   \<and> \<not> wellFormed \<lparr>ID = [], DocStyle = [],
                      styles = \<lparr>defMap = None, classMap = None, nConflict = 0\<rparr>,
                      NameSpace = [], conf = None\<rparr>"
  by (simp add: MakeStyle_def wellFormed_def)

text \<open>
  C2. The class names that registering calls assign are not pairwise distinct: the name
  made by appending the counter is not checked against the class table. On a new document
  with the embedded stylesheet on, the calls \<^verbatim>\<open>MakeStyle("a1", "fill:red")\<close>,
  \<^verbatim>\<open>MakeStyle("a", "fill:blue")\<close>, \<^verbatim>\<open>MakeStyle("a", "fill:green")\<close> each register a rule;
  the third finds \<^verbatim>\<open>a\<close> taken, makes \<^verbatim>\<open>a1\<close> from counter value 1 and overwrites the class
  table entry of the first call, so the first and third call return the same class and the
  stylesheet holds two rules for \<^verbatim>\<open>.a1\<close>.
\<close>

theorem MakeStyle_class_collision:
  "observe (MakeStyles (NewDocument (Some (embedConf unify scope)))
             [(''a1'', ''fill:red''), (''a'', ''fill:blue''), (''a'', ''fill:green'')])
   = Inr ([''a1'', ''a'', ''a1''], ''.a1 {fill:red} .a {fill:blue} .a1 {fill:green}'')"
  by (cases unify)
     (simp_all add: MakeStyle_def resolveName_def recordStyle_def updateStyle_def eval_defs)


section \<open>Joining and the two marshalling loops\<close>

lemma Join_Cons_Cons: "Join (v # w # vs) sep = v @ sep @ Join (w # vs) sep"
  by simp

lemma Join_snoc: "Join (vs @ [v]) sep = (if vs = [] then v else Join vs sep @ sep @ v)"
  by (cases vs) simp_all

lemma length_Join:
  "length (Join vs sep) = sum_list (map length vs) + (length vs - 1) * length sep"
proof (cases vs)
  case Nil
  then show ?thesis by simp
next
  case (Cons v ws)
  have "length (concat (map (\<lambda>s. sep @ s) ws)) = sum_list (map length ws) + length ws * length sep"
    by (induction ws) (simp_all add: algebra_simps)
  with Cons show ?thesis by simp
qed

lemma Join_prefix_suffix:
  assumes "vs \<noteq> []"
  shows "prefix (hd vs) (Join vs sep) \<and> suffix (last vs) (Join vs sep)"
proof
  from assms show "prefix (hd vs) (Join vs sep)" by (cases vs) simp_all
next
  from assms obtain ws w where "vs = ws @ [w]" by (cases vs rule: rev_cases) auto
  then show "suffix (last vs) (Join vs sep)"
    by (simp add: Join_snoc suffix_def del: Join.simps)
qed

text \<open>The range loop that assigns \<open>s[i]\<close> for every index computes a map.\<close>

lemma assign_loop:
  assumes "length s = n + length xs"
  shows "foldl (\<lambda>s (i, x). s[i := g x]) s (enumerate n xs) = take n s @ map g xs"
  using assms
proof (induction xs arbitrary: n s)
  case Nil
  then show ?case by simp
next
  case (Cons x xs)
  have "foldl (\<lambda>s (i, x). s[i := g x]) (s[n := g x]) (enumerate (Suc n) xs)
          = take (Suc n) (s[n := g x]) @ map g xs"
    using Cons.prems by (intro Cons.IH) simp
  moreover have "take (Suc n) (s[n := g x]) = take n s @ [g x]"
    using Cons.prems by (simp add: take_Suc_conv_app_nth)
  ultimately show ?case by simp
qed

lemma assign_loop_replicate:
  "foldl (\<lambda>s (i, x). s[i := g x]) (replicate (length xs) e) (enumerate 0 xs) = map g xs"
  using assign_loop [of "replicate (length xs) e" 0 xs g] by simp

lemma append_loop:
  "foldl (\<lambda>acc i. acc @ [g i]) acc [0..<n] = acc @ map g [0..<n]"
  by (induction n) simp_all

lemma map_by_index: "map (\<lambda>i. g (xs ! i)) [0..<length xs] = map g xs"
  by (rule nth_equalityI) simp_all

lemma transformArgs_map: "transformArgs ff t = map (String ff) (Args t)"
  by (simp add: transformArgs_def append_loop map_by_index)

lemma Points_value:
  "Points_MarshalXMLAttr ff pts name =
     (\<lparr>AttrName = name, Value = Join (map (\<lambda>pt. ff (fst pt) @ '','' @ ff (snd pt)) pts) '' ''\<rparr>,
      None)"
  by (simp add: Points_MarshalXMLAttr_def makeListAttr_def assign_loop_replicate)

lemma TransformList_value:
  "TransformList_MarshalXMLAttr ff tlist name =
     (\<lparr>AttrName = name,
       Value = Join (map (\<lambda>t. Name t @ ''('' @ Join (map (String ff) (Args t)) '','' @ '')'') tlist)
                 '' ''\<rparr>,
      None)"
  by (simp add: TransformList_MarshalXMLAttr_def makeListAttr_def assign_loop_replicate
        transformArgs_map)


section \<open>Claims about attribute serialization and shapes\<close>

text \<open>
  C6. The attribute value of a transform list is \<^verbatim>\<open>strings.Join\<close> with one space of the
  operations in list order, each rendered as its name, \<^verbatim>\<open>(\<close>, its arguments joined by
  \<^verbatim>\<open>,\<close>, and \<^verbatim>\<open>)\<close>; no error is returned. The empty list gives the empty string; an
  appended operation is rendered last, after one space when operations precede it. The
  list built by \<^verbatim>\<open>TranslateInt(1, 2)\<close> and \<^verbatim>\<open>RotateOrig(d)\<close>, where the formatter gives
  \<^verbatim>\<open>30\<close> for \<^verbatim>\<open>d\<close>, has the value \<^verbatim>\<open>translate(1,2) rotate(30)\<close>.
\<close>

theorem TransformList_serialization:
  "TransformList_MarshalXMLAttr ff tlist name =
     (\<lparr>AttrName = name,
       Value = Join (map (\<lambda>t. Name t @ ''('' @ Join (map (String ff) (Args t)) '','' @ '')'') tlist)
                 '' ''\<rparr>,
      None)
   \<and> Value (fst (TransformList_MarshalXMLAttr ff [] name)) = []
   \<and> Value (fst (TransformList_MarshalXMLAttr ff (append_transform tlist t) name)) =
       (if tlist = [] then Name t @ ''('' @ Join (map (String ff) (Args t)) '','' @ '')''
        else Value (fst (TransformList_MarshalXMLAttr ff tlist name)) @ '' ''
             @ Name t @ ''('' @ Join (map (String ff) (Args t)) '','' @ '')'')
   \<and> (ff d = ''30'' \<longrightarrow>
        Value (fst (TransformList_MarshalXMLAttr ff (RotateOrig (TranslateInt [] 1 2) d) name))
          = ''translate(1,2) rotate(30)'')"
proof (intro conjI impI)
  show "TransformList_MarshalXMLAttr ff tlist name =
     (\<lparr>AttrName = name,
       Value = Join (map (\<lambda>t. Name t @ ''('' @ Join (map (String ff) (Args t)) '','' @ '')'') tlist)
                 '' ''\<rparr>,
      None)"
    by (rule TransformList_value)
next
  show "Value (fst (TransformList_MarshalXMLAttr ff [] name)) = []"
    by (simp add: TransformList_value)
next
  show "Value (fst (TransformList_MarshalXMLAttr ff (append_transform tlist t) name)) =
       (if tlist = [] then Name t @ ''('' @ Join (map (String ff) (Args t)) '','' @ '')''
        else Value (fst (TransformList_MarshalXMLAttr ff tlist name)) @ '' ''
             @ Name t @ ''('' @ Join (map (String ff) (Args t)) '','' @ '')'')"
    by (simp add: TransformList_value append_transform_def Join_snoc del: Join.simps)
next
  assume "ff d = ''30''"
  then show "Value (fst (TransformList_MarshalXMLAttr ff (RotateOrig (TranslateInt [] 1 2) d) name))
          = ''translate(1,2) rotate(30)''"
    by (simp add: TransformList_value RotateOrig_def TranslateInt_def append_transform_def
          translateInt_def ftrans_def Itoa_def digits.simps)
qed

theorem TransformList_serialization_witness:
  "Itoa 30 = ''30''
   \<and> Value (fst (TransformList_MarshalXMLAttr Itoa (RotateOrig (TranslateInt [] 1 2) 30)
                   \<lparr>Space = [], Local = ''transform''\<rparr>))
       = ''translate(1,2) rotate(30)''"
proof -
  have h: "Itoa 30 = ''30''" by (simp add: Itoa_def digits.simps)
  from TransformList_serialization
         [of Itoa "[]" "\<lparr>Space = [], Local = ''transform''\<rparr>" "translateInt 1 2" 30] h
  show ?thesis by blast
qed

text \<open>
  C7. The list attribute encoder returns, without error, the attribute whose value is the
  elements joined by one space: empty for no element, the element itself for one, and
  for more the first element, a space and the joined rest. Nothing is put before the first
  element or after the last, and the length is that of the elements plus one per gap. A
  points list is encoded as the join by one space of its pairs, each the two formatted
  coordinates with a comma between; the list \<^verbatim>\<open>[(10,20),(30,40)]\<close>, whose coordinates the
  formatter gives as \<^verbatim>\<open>10\<close>, \<^verbatim>\<open>20\<close>, \<^verbatim>\<open>30\<close>, \<^verbatim>\<open>40\<close>, has the value \<^verbatim>\<open>10,20 30,40\<close>.
\<close>

theorem makeListAttr_join:
  "snd (makeListAttr name values) = None
   \<and> AttrName (fst (makeListAttr name values)) = name
   \<and> Value (fst (makeListAttr name [])) = []
   \<and> Value (fst (makeListAttr name [v])) = v
   \<and> Value (fst (makeListAttr name (v # w # vs)))
       = v @ '' '' @ Value (fst (makeListAttr name (w # vs)))
   \<and> (values \<noteq> [] \<longrightarrow>
        prefix (hd values) (Value (fst (makeListAttr name values)))
        \<and> suffix (last values) (Value (fst (makeListAttr name values))))
   \<and> length (Value (fst (makeListAttr name values)))
       = sum_list (map length values) + (length values - 1)
   \<and> Points_MarshalXMLAttr ff pts name
       = makeListAttr name (map (\<lambda>pt. ff (fst pt) @ '','' @ ff (snd pt)) pts)
   \<and> (ff a = ''10'' \<and> ff b = ''20'' \<and> ff c = ''30'' \<and> ff e = ''40'' \<longrightarrow>
        Value (fst (Points_MarshalXMLAttr ff [(a, b), (c, e)] name)) = ''10,20 30,40'')"
proof (intro conjI impI)
  assume "values \<noteq> []"
  then show "prefix (hd values) (Value (fst (makeListAttr name values)))"
    and "suffix (last values) (Value (fst (makeListAttr name values)))"
    using Join_prefix_suffix [of "values" "'' ''"] by (simp_all add: makeListAttr_def)
next
  show "length (Value (fst (makeListAttr name values)))
       = sum_list (map length values) + (length values - 1)"
    by (simp add: makeListAttr_def length_Join)
next
  show "Points_MarshalXMLAttr ff pts name
       = makeListAttr name (map (\<lambda>pt. ff (fst pt) @ '','' @ ff (snd pt)) pts)"
    by (simp add: Points_value makeListAttr_def)
next
  assume "ff a = ''10'' \<and> ff b = ''20'' \<and> ff c = ''30'' \<and> ff e = ''40''"
  then show "Value (fst (Points_MarshalXMLAttr ff [(a, b), (c, e)] name)) = ''10,20 30,40''"
    by (simp add: Points_value)
qed (simp_all add: makeListAttr_def)

theorem makeListAttr_join_witness:
  "prefix (hd [''10,20'', ''30,40''])
     (Value (fst (makeListAttr \<lparr>Space = [], Local = ''points''\<rparr> [''10,20'', ''30,40''])))
   \<and> suffix (last [''10,20'', ''30,40''])
       (Value (fst (makeListAttr \<lparr>Space = [], Local = ''points''\<rparr> [''10,20'', ''30,40''])))
   \<and> Value (fst (Points_MarshalXMLAttr Itoa [(10, 20), (30, 40)]
                   \<lparr>Space = [], Local = ''points''\<rparr>)) = ''10,20 30,40''"
proof -
  have h: "Itoa 10 = ''10'' \<and> Itoa 20 = ''20'' \<and> Itoa 30 = ''30'' \<and> Itoa 40 = ''40''"
    by (simp add: Itoa_def digits.simps)
  have ne: "[''10,20'', ''30,40''] \<noteq> []" by simp
  from makeListAttr_join
         [of "\<lparr>Space = [], Local = ''points''\<rparr>" "[''10,20'', ''30,40'']" _ _ _ Itoa _
             10 20 30 40] h ne
  show ?thesis by blast
qed

text \<open>
  C8. The element that \<^verbatim>\<open>EllipseInt\<close> appends has the element name \<^verbatim>\<open>circle\<close>, not
  \<^verbatim>\<open>ellipse\<close>, and the attributes \<^verbatim>\<open>cx\<close>, \<^verbatim>\<open>cy\<close>, \<^verbatim>\<open>rx\<close>, \<^verbatim>\<open>ry\<close> with the converted
  arguments as values.
\<close>

theorem EllipseInt_tag:
  "fst (EllipseInt f64 el cx cy rx ry)
     = el @ [fst (EllipseInt f64 el cx cy rx ry) ! snd (EllipseInt f64 el cx cy rx ry)]
   \<and> XMLName (fst (EllipseInt f64 el cx cy rx ry) ! snd (EllipseInt f64 el cx cy rx ry))
       = ''circle''
   \<and> XMLName (fst (EllipseInt f64 el cx cy rx ry) ! snd (EllipseInt f64 el cx cy rx ry))
       \<noteq> ''ellipse''
   \<and> floatAttrs (fst (EllipseInt f64 el cx cy rx ry) ! snd (EllipseInt f64 el cx cy rx ry))
       = [(''cx'', f64 cx), (''cy'', f64 cy), (''rx'', f64 rx), (''ry'', f64 ry)]"
  by (simp add: EllipseInt_def append_elem_def)

end
